theory Spec2Isabelle
  imports Main "HOL-Library.AList"
begin

section \<open>The TypeScript syntax tree read by the generator\<close>

text \<open>
  The generator works on the syntax tree of the TypeScript compiler API. Only the node
  kinds and fields that \<^verbatim>\<open>src/core/generateZodSchema.ts\<close> inspects are modelled.
  A node's \<^verbatim>\<open>getText(sourceFile)\<close> is its source text: literals and property names
  carry it, since the same \<^verbatim>\<open>text\<close> can be written with either quote. A string or
  numeric literal has its \<^verbatim>\<open>text\<close> and its source text; \<open>OtherLiteral\<close> and
  \<open>ComputedPropertyName\<close> stand for every other kind of literal and of property name.
\<close>

datatype entityName = Identifier string | QualifiedName entityName string

datatype prefixOperator = MinusToken | OtherPrefixToken string

datatype literal =
    StringLiteral string string
  | NumericLiteral string string
  | PrefixUnaryExpression prefixOperator literal
  | TrueKeyword
  | FalseKeyword
  | NullKeyword
  | OtherLiteral string

fun prefixOperator_getText :: "prefixOperator \<Rightarrow> string" where
  "prefixOperator_getText MinusToken = ''-''"
| "prefixOperator_getText (OtherPrefixToken s) = s"

fun literal_getText :: "literal \<Rightarrow> string" where
  "literal_getText (StringLiteral t src) = src"
| "literal_getText (NumericLiteral t src) = src"
| "literal_getText (PrefixUnaryExpression oper l) = prefixOperator_getText oper @ literal_getText l"
| "literal_getText TrueKeyword = ''true''"
| "literal_getText FalseKeyword = ''false''"
| "literal_getText NullKeyword = ''null''"
| "literal_getText (OtherLiteral src) = src"

datatype propertyName =
    NameIdentifier string
  | NameStringLiteral string string
  | NameNumericLiteral string string
  | ComputedPropertyName string

fun propertyName_getText :: "propertyName \<Rightarrow> string" where
  "propertyName_getText (NameIdentifier t) = t"
| "propertyName_getText (NameStringLiteral t src) = src"
| "propertyName_getText (NameNumericLiteral t src) = src"
| "propertyName_getText (ComputedPropertyName src) = src"

text \<open>
  \<^verbatim>\<open>JSDocTags\<close>: the tags of a documentation comment, as \<^verbatim>\<open>getJSDocTags\<close> returns them
  (the extractor itself is outside the sources; the fields are the ones the generator reads).
\<close>

record jsDocTags =
  schema :: "string option"
  discriminator :: "string option"
  strict :: bool
  description :: "string option"
  minimum :: "string option"
  maximum :: "string option"
  minLength :: "string option"
  maxLength :: "string option"
  format :: "string option"
  pattern :: "string option"
  elementDescription :: "string option"
  elementMinimum :: "string option"
  elementMaximum :: "string option"
  elementMinLength :: "string option"
  elementMaxLength :: "string option"
  elementFormat :: "string option"
  elementPattern :: "string option"

definition noTags :: jsDocTags where
  "noTags = \<lparr> schema = None, discriminator = None, strict = False, description = None,
     minimum = None, maximum = None, minLength = None, maxLength = None, format = None,
     pattern = None, elementDescription = None, elementMinimum = None, elementMaximum = None,
     elementMinLength = None, elementMaxLength = None, elementFormat = None,
     elementPattern = None \<rparr>"

datatype keyword =
    StringKeyword | NumberKeyword | BooleanKeyword | UndefinedKeyword | AnyKeyword
  | BigIntKeyword | VoidKeyword | NeverKeyword | UnknownKeyword | ObjectKeyword

text \<open>
  Type nodes. \<open>OtherType k\<close> stands for every node kind the generator has no rule for;
  \<open>k\<close> is the kind's name (\<^verbatim>\<open>ts.SyntaxKind[node.kind]\<close>), such as \<open>''ConditionalType''\<close>.
  A property signature has a name, an optional type, the question token and the tags of its
  comment; a function parameter has an optional type and the question token.
\<close>

datatype tnode =
    KeywordType keyword
  | TypeReference entityName "tnode list option"
  | ParenthesizedType tnode
  | UnionType "tnode list"
  | IntersectionType "tnode list"
  | TupleType "tnode list"
  | RestType tnode
  | NamedTupleMember tnode
  | LiteralType literal
  | ArrayType tnode
  | TypeLiteral "member list"
  | FunctionType "(tnode option \<times> bool) list" tnode
  | IndexedAccessType tnode tnode
  | TemplateLiteralType string "(tnode \<times> string) list"
  | OtherType string
and member =
    PropertySignature propertyName "tnode option" bool jsDocTags
  | IndexSignature tnode
  | OtherMember "propertyName option"

record typeParameterDeclaration =
  tpName :: string
  tpConstraint :: "tnode option"
  tpDefault :: "tnode option"

text \<open>An entry of a heritage clause: \<^verbatim>\<open>expression.getText\<close> and the type arguments.\<close>

record expressionWithTypeArguments =
  hExpression :: string
  hTypeArguments :: "tnode list option"

datatype heritageToken = ExtendsKeyword | ImplementsKeyword

record heritageClause =
  hToken :: heritageToken
  hTypes :: "expressionWithTypeArguments list"

record interfaceDeclaration =
  iName :: string
  iTypeParameters :: "typeParameterDeclaration list option"
  iHeritageClauses :: "heritageClause list option"
  iMembers :: "member list"
  iJsDoc :: jsDocTags

record typeAliasDeclaration =
  aName :: string
  aTypeParameters :: "typeParameterDeclaration list option"
  aType :: tnode
  aJsDoc :: jsDocTags

record enumDeclaration =
  eName :: string
  eMembers :: "(string \<times> literal option) list"

datatype statement =
    InterfaceDeclaration interfaceDeclaration
  | TypeAliasDeclaration typeAliasDeclaration
  | EnumDeclaration enumDeclaration
  | OtherStatement

text \<open>
  A source file: its top-level statements, and the source text of each type node
  (\<^verbatim>\<open>node.getText(sourceFile)\<close>).
\<close>

record sourceFile =
  statements :: "statement list"
  nodeText :: "tnode \<Rightarrow> string"

datatype node = TypeNode tnode | DeclarationNode statement

record MaybeConfig =
  optional :: bool
  nullable :: bool
  typeNames :: "string set"

text \<open>Every \<^verbatim>\<open>throw\<close> of the generator, and the \<^verbatim>\<open>TypeError\<close> of reading a field of \<^verbatim>\<open>undefined\<close>.\<close>

datatype error =
    InterfaceWithGenerics
  | TypeWithGenerics
  | MaybeInterfaceParameters string
  | ExtendsWithIndexSignature
  | OmitPickUnknownSyntax string string bool
  | UnknownIndexedAccessObjectType
  | TypeError

section \<open>generateZodSchema: schemas with generics\<close>

text \<open>The values of the zod library that \<^verbatim>\<open>generateZodSchema\<close> builds.\<close>

datatype zod =
    ZodString
  | ZodNumber
  | ZodBoolean
  | ZodUnknown
  | ZodObject "(string \<times> zod) list"
  | ZodOptional zod
  | ZodNullable zod

record State =
  genericMap :: "string \<rightharpoonup> tnode"
  maybeConfig :: MaybeConfig
  rawFileAst :: "sourceFile option"

fun getTypeName :: "entityName \<Rightarrow> string" where
  "getTypeName (Identifier t) = t"
| "getTypeName (QualifiedName l r) = r"

fun isInterfaceOrTypeAliasNamed :: "string \<Rightarrow> statement \<Rightarrow> bool" where
  "isInterfaceOrTypeAliasNamed n (InterfaceDeclaration d) = (iName d = n)"
| "isInterfaceOrTypeAliasNamed n (TypeAliasDeclaration d) = (aName d = n)"
| "isInterfaceOrTypeAliasNamed n _ = False"

definition findInterfaceOrTypeAliasDecl :: "string \<Rightarrow> sourceFile option \<Rightarrow> statement option" where
  "findInterfaceOrTypeAliasDecl n sf =
     (case sf of None \<Rightarrow> None
      | Some f \<Rightarrow> List.find (isInterfaceOrTypeAliasNamed n) (statements f))"

fun declTypeParameters :: "statement \<Rightarrow> typeParameterDeclaration list option" where
  "declTypeParameters (InterfaceDeclaration d) = iTypeParameters d"
| "declTypeParameters (TypeAliasDeclaration d) = aTypeParameters d"
| "declTypeParameters _ = None"

text \<open>
  The \<^verbatim>\<open>forEach\<close> over the declaration's type parameters: the parameter at an index is
  bound to the type argument at that index, when there is one.
\<close>

fun bindTypeParameters ::
  "typeParameterDeclaration list \<Rightarrow> tnode list \<Rightarrow> (string \<rightharpoonup> tnode) \<Rightarrow> (string \<rightharpoonup> tnode)" where
  "bindTypeParameters [] args m = m"
| "bindTypeParameters (p # ps) [] m = m"
| "bindTypeParameters (p # ps) (a # args) m = bindTypeParameters ps args (m(tpName p \<mapsto> a))"

fun isLiteralTrueNode :: "tnode \<Rightarrow> bool" where
  "isLiteralTrueNode (LiteralType l) = (l = TrueKeyword)"
| "isLiteralTrueNode (OtherType k) = (k = ''TrueKeyword'')"
| "isLiteralTrueNode _ = False"

text \<open>
  The generic declaration a reference with type arguments expands to (the first block of
  \<^verbatim>\<open>generateZodSchema\<close>): the declaration and the extended generic map.
\<close>

definition genericExpansion :: "node \<Rightarrow> State \<Rightarrow> (statement \<times> (string \<rightharpoonup> tnode)) option" where
  "genericExpansion n st =
     (case n of
        TypeNode (TypeReference tn (Some (a # args))) \<Rightarrow>
          (case findInterfaceOrTypeAliasDecl (getTypeName tn) (rawFileAst st) of
             None \<Rightarrow> None
           | Some decl \<Rightarrow>
               (case declTypeParameters decl of
                  None \<Rightarrow> None
                | Some ps \<Rightarrow> Some (decl, bindTypeParameters ps (a # args) (genericMap st))))
      | _ \<Rightarrow> None)"

text \<open>The generic parameter a reference is replaced by (the second block).\<close>

definition genericSubstitution :: "node \<Rightarrow> State \<Rightarrow> tnode option" where
  "genericSubstitution n st =
     (case n of
        TypeNode (TypeReference tn args) \<Rightarrow> genericMap st (getTypeName tn)
      | _ \<Rightarrow> None)"

text \<open>
  \<^verbatim>\<open>shape[propName] = propSchema\<close> on the object \<^verbatim>\<open>shape\<close>. The shape lists its keys as
  JavaScript does: the keys that are array indices (the canonical decimal form of an integer
  below \<open>2\<^sup>3\<^sup>2 - 1\<close>) first, in ascending order, then the other keys in the order of
  their first assignment. Assigning to a key that is there replaces its schema in place.
\<close>

definition isDigit :: "char \<Rightarrow> bool" where
  "isDigit c = (c \<in> set ''0123456789'')"

definition digitValue :: "char \<Rightarrow> nat" where
  "digitValue c = length (takeWhile (\<lambda>d. d \<noteq> c) ''0123456789'')"

definition decimalValue :: "string \<Rightarrow> nat" where
  "decimalValue s = foldl (\<lambda>n c. 10 * n + digitValue c) 0 s"

definition isArrayIndex :: "string \<Rightarrow> bool" where
  "isArrayIndex s =
     (if s \<noteq> [] \<and> list_all isDigit s \<and> (hd s \<noteq> CHR ''0'' \<or> length s = 1)
      then decimalValue s < 4294967295
      else False)"

fun insertIndexKey :: "string \<Rightarrow> zod \<Rightarrow> (string \<times> zod) list \<Rightarrow> (string \<times> zod) list" where
  "insertIndexKey k v [] = [(k, v)]"
| "insertIndexKey k v (e # sh) =
     (if isArrayIndex (fst e) \<and> decimalValue (fst e) < decimalValue k
      then e # insertIndexKey k v sh
      else (k, v) # e # sh)"

definition shape_set :: "string \<Rightarrow> zod \<Rightarrow> (string \<times> zod) list \<Rightarrow> (string \<times> zod) list" where
  "shape_set k v sh =
     (if map_of sh k \<noteq> None then AList.update k v sh
      else if isArrayIndex k then insertIndexKey k v sh
      else sh @ [(k, v)])"

text \<open>The wrapping of a member's schema in \<^verbatim>\<open>generateInterfaceMembersSchema\<close>.\<close>

definition wrapMember :: "MaybeConfig \<Rightarrow> bool \<Rightarrow> bool \<Rightarrow> zod \<Rightarrow> zod" where
  "wrapMember cfg makeOptionalNullable questionToken s =
     (if makeOptionalNullable then
        (let s1 = (if optional cfg then ZodOptional s else s)
         in (if nullable cfg then ZodNullable s1 else s1))
      else if questionToken then ZodOptional s
      else s)"

text \<open>
  \<^verbatim>\<open>generateZodSchema\<close> calls itself on nodes that are not part of its argument (the bound
  type of a generic parameter, a declaration of the source file, and, for a type literal
  and a union, the node itself), so it may not return. The first argument bounds the depth
  of the calls; \<open>None\<close> is a computation that needs more.
\<close>

fun generateZodSchema :: "nat \<Rightarrow> node \<Rightarrow> State \<Rightarrow> (error + zod) option"
and generateMaybeInterfaceSchema :: "nat \<Rightarrow> interfaceDeclaration \<Rightarrow> State \<Rightarrow> (error + zod) option"
and generateInterfaceMembersSchema ::
  "nat \<Rightarrow> member list \<Rightarrow> State \<Rightarrow> bool \<Rightarrow> (string \<times> zod) list \<Rightarrow> (error + zod) option"
where
  "generateZodSchema 0 n st = None"
| "generateZodSchema (Suc fuel) n st =
     (case genericExpansion n st of
        Some (decl, newGenericMap) \<Rightarrow>
          generateZodSchema fuel (DeclarationNode decl) (st\<lparr>genericMap := newGenericMap\<rparr>)
      | None \<Rightarrow>
     (case genericSubstitution n st of
        Some bound \<Rightarrow> generateZodSchema fuel (TypeNode bound) st
      | None \<Rightarrow>
     (case n of
        DeclarationNode (InterfaceDeclaration d) \<Rightarrow>
          (if iName d \<in> typeNames (maybeConfig st)
           then generateMaybeInterfaceSchema fuel d st
           else Some (Inr ZodUnknown))
      | TypeNode (KeywordType StringKeyword) \<Rightarrow> Some (Inr ZodString)
      | TypeNode (KeywordType NumberKeyword) \<Rightarrow> Some (Inr ZodNumber)
      | TypeNode (KeywordType BooleanKeyword) \<Rightarrow> Some (Inr ZodBoolean)
      | TypeNode (TypeLiteral ms) \<Rightarrow> generateZodSchema fuel n st
      | TypeNode (UnionType ts) \<Rightarrow> generateZodSchema fuel n st
      | _ \<Rightarrow> Some (Inr ZodUnknown))))"
| "generateMaybeInterfaceSchema fuel d st =
     (case iTypeParameters d of
        Some [typeParam] \<Rightarrow>
          (let genericName = tpName typeParam;
               concreteGeneric = (case genericMap st genericName of
                                    Some t \<Rightarrow> t | None \<Rightarrow> LiteralType TrueKeyword);
               enabled = isLiteralTrueNode concreteGeneric;
               newState = st\<lparr>genericMap := (genericMap st)(genericName := None)\<rparr>
           in generateInterfaceMembersSchema fuel (iMembers d) newState (\<not> enabled) [])
      | _ \<Rightarrow> Some (Inl (MaybeInterfaceParameters (iName d))))"
| "generateInterfaceMembersSchema fuel [] st makeOptionalNullable shape =
     Some (Inr (ZodObject shape))"
| "generateInterfaceMembersSchema fuel (m # ms) st makeOptionalNullable shape =
     (case m of
        PropertySignature pn (Some ty) questionToken tags \<Rightarrow>
          (case generateZodSchema fuel (TypeNode ty) st of
             None \<Rightarrow> None
           | Some (Inl e) \<Rightarrow> Some (Inl e)
           | Some (Inr propSchema) \<Rightarrow>
               generateInterfaceMembersSchema fuel ms st makeOptionalNullable
                 (shape_set (propertyName_getText pn)
                    (wrapMember (maybeConfig st) makeOptionalNullable questionToken propSchema)
                    shape))
      | _ \<Rightarrow> generateInterfaceMembersSchema fuel ms st makeOptionalNullable shape)"


section \<open>The generated expressions\<close>

text \<open>
  The expressions built with the TypeScript factory. A call created with no argument array
  has an empty argument list, as \<^verbatim>\<open>createCallExpression\<close> makes it. The flag of an object
  literal is its \<^verbatim>\<open>multiLine\<close> argument.
\<close>

datatype expr =
    Ident string
  | PropertyAccess expr string
  | Call expr "expr list"
  | ElementAccess expr expr
  | StringLit string
  | NumericLit string
  | PrefixMinus expr
  | TrueLit
  | FalseLit
  | ArrayLiteral "expr list"
  | ObjectLiteral "(propertyName \<times> expr) list" bool

record zodProperty =
  zpIdentifier :: string
  zpExpressions :: "expr list option"

definition withZodProperties :: "expr \<Rightarrow> zodProperty list \<Rightarrow> expr" where
  "withZodProperties expression properties =
     foldl (\<lambda>expressionWithProperties property.
              Call (PropertyAccess expressionWithProperties (zpIdentifier property))
                   (case zpExpressions property of Some es \<Rightarrow> es | None \<Rightarrow> []))
           expression properties"

definition buildZodSchema :: "string \<Rightarrow> string \<Rightarrow> expr list \<Rightarrow> zodProperty list \<Rightarrow> expr" where
  "buildZodSchema zodImportValue callName args properties =
     withZodProperties (Call (PropertyAccess (Ident zodImportValue) callName) args) properties"

text \<open>
  Modelled from the spec: \<^verbatim>\<open>zodPropertyIsOptional\<close> of \<^verbatim>\<open>core/jsDocTags.ts\<close> is missing from
  the sources; it is the optional modifier, the call \<^verbatim>\<open>.optional()\<close>.
\<close>

definition zodPropertyIsOptional :: zodProperty where
  "zodPropertyIsOptional = \<lparr> zpIdentifier = ''optional'', zpExpressions = None \<rparr>"

definition zodPropertyNullable :: zodProperty where
  "zodPropertyNullable = \<lparr> zpIdentifier = ''nullable'', zpExpressions = None \<rparr>"

definition maybeCall :: "expr \<Rightarrow> bool \<Rightarrow> expr" where
  "maybeCall arg isOptional =
     withZodProperties (Call (Ident ''maybe'') [arg])
       (if isOptional then [zodPropertyIsOptional] else [])"

text \<open>
  \<^verbatim>\<open>lower\<close> of the \<^verbatim>\<open>case\<close> package is only applied to the two names \<^verbatim>\<open>Omit\<close> and
  \<^verbatim>\<open>Pick\<close>.
\<close>

definition lower :: "string \<Rightarrow> string" where
  "lower s = (if s = ''Omit'' then ''omit'' else if s = ''Pick'' then ''pick'' else s)"

fun keyword_kind :: "keyword \<Rightarrow> string" where
  "keyword_kind StringKeyword = ''StringKeyword''"
| "keyword_kind NumberKeyword = ''NumberKeyword''"
| "keyword_kind BooleanKeyword = ''BooleanKeyword''"
| "keyword_kind UndefinedKeyword = ''UndefinedKeyword''"
| "keyword_kind AnyKeyword = ''AnyKeyword''"
| "keyword_kind BigIntKeyword = ''BigIntKeyword''"
| "keyword_kind VoidKeyword = ''VoidKeyword''"
| "keyword_kind NeverKeyword = ''NeverKeyword''"
| "keyword_kind UnknownKeyword = ''UnknownKeyword''"
| "keyword_kind ObjectKeyword = ''ObjectKeyword''"

text \<open>\<^verbatim>\<open>ts.SyntaxKind[node.kind]\<close>: the name of a node's kind.\<close>

fun syntaxKind :: "tnode \<Rightarrow> string" where
  "syntaxKind (KeywordType k) = keyword_kind k"
| "syntaxKind (TypeReference n a) = ''TypeReference''"
| "syntaxKind (ParenthesizedType t) = ''ParenthesizedType''"
| "syntaxKind (UnionType ts) = ''UnionType''"
| "syntaxKind (IntersectionType ts) = ''IntersectionType''"
| "syntaxKind (TupleType ts) = ''TupleType''"
| "syntaxKind (RestType t) = ''RestType''"
| "syntaxKind (NamedTupleMember t) = ''NamedTupleMember''"
| "syntaxKind (LiteralType l) = ''LiteralType''"
| "syntaxKind (ArrayType t) = ''ArrayType''"
| "syntaxKind (TypeLiteral ms) = ''TypeLiteral''"
| "syntaxKind (FunctionType ps r) = ''FunctionType''"
| "syntaxKind (IndexedAccessType o' i) = ''IndexedAccessType''"
| "syntaxKind (TemplateLiteralType h spans) = ''TemplateLiteralType''"
| "syntaxKind (OtherType k) = k"

fun isLiteralTypeNode :: "tnode \<Rightarrow> bool" where
  "isLiteralTypeNode (LiteralType l) = True"
| "isLiteralTypeNode _ = False"

fun isNullLiteralType :: "tnode \<Rightarrow> bool" where
  "isNullLiteralType (LiteralType l) = (l = NullKeyword)"
| "isNullLiteralType _ = False"

text \<open>
  Modelled from the spec: \<^verbatim>\<open>isNotNull\<close> of \<^verbatim>\<open>utils/isNotNull.ts\<close> is missing from the sources;
  the spec has the union rule filter out the literal \<^verbatim>\<open>null\<close> arms with it.
\<close>

definition isNotNull :: "tnode \<Rightarrow> bool" where
  "isNotNull t = (\<not> isNullLiteralType t)"

subsection \<open>Omit and Pick\<close>

fun omitPickKey :: "tnode \<Rightarrow> propertyName \<times> expr" where
  "omitPickKey (LiteralType l) = (NameIdentifier (literal_getText l), TrueLit)"
| "omitPickKey t = (NameIdentifier [], TrueLit)"

definition buildOmitPickObject :: "string \<Rightarrow> tnode option \<Rightarrow> expr \<Rightarrow> error + expr" where
  "buildOmitPickObject omitOrPickIdentifierName keys zodCall =
     (case keys of
        None \<Rightarrow> Inl TypeError
      | Some (LiteralType l) \<Rightarrow>
          Inr (Call (PropertyAccess zodCall (lower omitOrPickIdentifierName))
                 [ObjectLiteral [(NameIdentifier (literal_getText l), TrueLit)] False])
      | Some (UnionType ts) \<Rightarrow>
          (case List.find (\<lambda>t. \<not> isLiteralTypeNode t) ts of
             Some t \<Rightarrow> Inl (OmitPickUnknownSyntax omitOrPickIdentifierName (syntaxKind t) True)
           | None \<Rightarrow>
               Inr (Call (PropertyAccess zodCall (lower omitOrPickIdentifierName))
                      [ObjectLiteral (map omitPickKey ts) False]))
      | Some k \<Rightarrow> Inl (OmitPickUnknownSyntax omitOrPickIdentifierName (syntaxKind k) False))"

subsection \<open>Extended schemas\<close>

record schemaExtensionClause =
  extendedSchemaName :: string
  omitOrPickType :: "string option"
  omitOrPickKeys :: "tnode option"

text \<open>One entry of the extension chain: the referenced schema, projected when the clause asks.\<close>

definition extensionClauseSchema :: "schemaExtensionClause \<Rightarrow> error + expr" where
  "extensionClauseSchema c =
     (case (omitOrPickType c, omitOrPickKeys c) of
        (Some omitOrPickIdentifierName, Some keys) \<Rightarrow>
          buildOmitPickObject omitOrPickIdentifierName (Some keys) (Ident (extendedSchemaName c))
      | _ \<Rightarrow> Inr (Ident (extendedSchemaName c)))"

fun extendWithClauses :: "expr \<Rightarrow> schemaExtensionClause list \<Rightarrow> error + expr" where
  "extendWithClauses zodCall [] = Inr zodCall"
| "extendWithClauses zodCall (c # cs) =
     (case extensionClauseSchema c of
        Inl e \<Rightarrow> Inl e
      | Inr s \<Rightarrow>
          extendWithClauses
            (Call (PropertyAccess zodCall ''extend'') [PropertyAccess s ''shape'']) cs)"

definition buildZodExtendedSchema ::
  "schemaExtensionClause list \<Rightarrow> expr list option \<Rightarrow> zodProperty list \<Rightarrow> error + expr" where
  "buildZodExtendedSchema schemaList args properties =
     (case schemaList of
        [] \<Rightarrow> Inl TypeError
      | c # cs \<Rightarrow>
          (case extensionClauseSchema c of
             Inl e \<Rightarrow> Inl e
           | Inr zodCall0 \<Rightarrow>
               (case extendWithClauses zodCall0 cs of
                  Inl e \<Rightarrow> Inl e
                | Inr zodCall1 \<Rightarrow>
                    Inr (withZodProperties
                          (case args of
                             Some (a # as) \<Rightarrow> Call (PropertyAccess zodCall1 ''extend'') (a # as)
                           | _ \<Rightarrow> zodCall1)
                          properties))))"


section \<open>Generation with dependencies and warnings\<close>

text \<open>
  The builders push the names of the schemas they refer to on the shared
  \<^verbatim>\<open>dependencies\<close> array, print warnings with \<^verbatim>\<open>console.warn\<close>, and may throw. A
  builder is a function from the state before to an error or its value and the state after.
\<close>

datatype warning =
    UnionMemberNotReferenceOrLiteral tnode
  | UnionMemberMissingDiscriminator tnode string
  | EnumMemberWithoutInitializer string string
  | ReferenceNotFound tnode
  | TemplateNodeNotSupported tnode
  | FallingBackIntoAny
  | KindNotSupported string
  | IndexAccessTypeNotResolved

record genState =
  dependencies :: "string list"
  warnings :: "warning list"

type_synonym 'a gen = "genState \<Rightarrow> error + ('a \<times> genState)"

definition ret :: "'a \<Rightarrow> 'a gen" where
  "ret x = (\<lambda>s. Inr (x, s))"

definition throw :: "error \<Rightarrow> 'a gen" where
  "throw e = (\<lambda>s. Inl e)"

definition bnd :: "'a gen \<Rightarrow> ('a \<Rightarrow> 'b gen) \<Rightarrow> 'b gen" where
  "bnd m f = (\<lambda>s. case m s of Inl e \<Rightarrow> Inl e | Inr (x, s') \<Rightarrow> f x s')"

definition liftE :: "error + 'a \<Rightarrow> 'a gen" where
  "liftE r = (case r of Inl e \<Rightarrow> throw e | Inr x \<Rightarrow> ret x)"

definition pushDependency :: "string \<Rightarrow> unit gen" where
  "pushDependency d = (\<lambda>s. Inr ((), s\<lparr>dependencies := dependencies s @ [d]\<rparr>))"

definition warn :: "warning \<Rightarrow> unit gen" where
  "warn w = (\<lambda>s. Inr ((), s\<lparr>warnings := warnings s @ [w]\<rparr>))"

fun mapG :: "('a \<Rightarrow> 'b gen) \<Rightarrow> 'a list \<Rightarrow> 'b list gen" where
  "mapG f [] = ret []"
| "mapG f (x # xs) = bnd (f x) (\<lambda>y. bnd (mapG f xs) (\<lambda>ys. ret (y # ys)))"

lemma bnd_cong [fundef_cong]:
  assumes "m = m'" and "\<And>x. f x = f' x"
  shows "bnd m f = bnd m' f'"
proof -
  have "f = f'" by (rule ext) (rule assms(2))
  with assms(1) show ?thesis by simp
qed

lemma mapG_cong [fundef_cong]:
  assumes "xs = ys" and "\<And>x. x \<in> set ys \<Longrightarrow> f x = g x"
  shows "mapG f xs = mapG g ys"
  unfolding assms(1) using assms(2) by (induction ys) simp_all

text \<open>
  The parameters that stay the same through one generation. \<^verbatim>\<open>jsDocTagToZodProperties\<close>
  of \<^verbatim>\<open>core/jsDocTags.ts\<close> is missing from the sources, so the builders take it as a
  parameter (with \<^verbatim>\<open>customJSDocFormatTypes\<close> already given to it): from the tags and the
  flags \<^verbatim>\<open>isOptional\<close>, \<^verbatim>\<open>isPartial\<close>, \<^verbatim>\<open>isRequired\<close>, \<^verbatim>\<open>isNullable\<close>, in this order, to
  the list of modifiers.
\<close>

record params =
  pZ :: string
  pSourceFile :: sourceFile
  pGetDependencyName :: "string \<Rightarrow> string"
  pSkipParseJSDoc :: bool
  pMaybeConfig :: MaybeConfig
  pJsDocTagToZodProperties :: "jsDocTags \<Rightarrow> bool \<Rightarrow> bool \<Rightarrow> bool \<Rightarrow> bool \<Rightarrow> zodProperty list"

text \<open>\<^verbatim>\<open>typeNode.typeArguments[i]\<close>, which is \<^verbatim>\<open>undefined\<close> past the end.\<close>

definition typeArgument :: "tnode list option \<Rightarrow> nat \<Rightarrow> tnode option" where
  "typeArgument typeArguments i =
     (case typeArguments of
        None \<Rightarrow> None
      | Some args \<Rightarrow> (if i < length args then Some (args ! i) else None))"

text \<open>The tags given to the element of an array: the \<^verbatim>\<open>element*\<close> tags of the array.\<close>

definition elementTags :: "jsDocTags \<Rightarrow> jsDocTags" where
  "elementTags tags = noTags \<lparr>
     description := elementDescription tags,
     minimum := elementMinimum tags,
     maximum := elementMaximum tags,
     minLength := elementMinLength tags,
     maxLength := elementMaxLength tags,
     format := elementFormat tags,
     pattern := elementPattern tags \<rparr>"

fun literalExpression :: "literal \<Rightarrow> expr option" where
  "literalExpression (StringLiteral t src) = Some (StringLit t)"
| "literalExpression (NumericLiteral t src) = Some (NumericLit t)"
| "literalExpression (PrefixUnaryExpression MinusToken (NumericLiteral t src)) =
     Some (PrefixMinus (NumericLit t))"
| "literalExpression TrueKeyword = Some TrueLit"
| "literalExpression FalseKeyword = Some FalseLit"
| "literalExpression _ = None"

fun restElementOf :: "tnode \<Rightarrow> tnode option" where
  "restElementOf (RestType (ArrayType elementType)) = Some elementType"
| "restElementOf _ = None"

fun unwrapNamedTupleMember :: "tnode \<Rightarrow> tnode" where
  "unwrapNamedTupleMember (NamedTupleMember t) = t"
| "unwrapNamedTupleMember t = t"

fun isPropertySignature :: "member \<Rightarrow> bool" where
  "isPropertySignature (PropertySignature n t q tags) = True"
| "isPropertySignature _ = False"

text \<open>The index signature kept by the \<^verbatim>\<open>reduce\<close> over the members: the last one.\<close>

fun indexSignatureOf :: "member list \<Rightarrow> tnode option" where
  "indexSignatureOf [] = None"
| "indexSignatureOf (m # ms) =
     (case indexSignatureOf ms of
        Some t \<Rightarrow> Some t
      | None \<Rightarrow> (case m of IndexSignature t \<Rightarrow> Some t | _ \<Rightarrow> None))"

fun isSupportedPropertyName :: "propertyName \<Rightarrow> bool" where
  "isSupportedPropertyName (ComputedPropertyName src) = False"
| "isSupportedPropertyName _ = True"

subsection \<open>Discriminated unions\<close>

fun hasDiscriminator :: "string \<Rightarrow> member \<Rightarrow> bool" where
  "hasDiscriminator d (PropertySignature n t q tags) = (propertyName_getText n = d)"
| "hasDiscriminator d _ = False"

text \<open>The loop over the members of a discriminated union: the warning of the first member
  that is not valid, if any.\<close>

fun checkDiscriminatedUnion :: "string \<Rightarrow> tnode list \<Rightarrow> warning option" where
  "checkDiscriminatedUnion d [] = None"
| "checkDiscriminatedUnion d (TypeLiteral ms # nodes) =
     (if list_ex (hasDiscriminator d) ms then checkDiscriminatedUnion d nodes
      else Some (UnionMemberMissingDiscriminator (TypeLiteral ms) d))"
| "checkDiscriminatedUnion d (TypeReference n a # nodes) = checkDiscriminatedUnion d nodes"
| "checkDiscriminatedUnion d (t # nodes) = Some (UnionMemberNotReferenceOrLiteral t)"


subsection \<open>Template literals\<close>

text \<open>
  Modelled from the spec: \<^verbatim>\<open>findNode\<close> of \<^verbatim>\<open>utils/findNode.ts\<close> is missing from the sources;
  it resolves a name to the first declaration of the source file that the predicate accepts.
\<close>

definition findNode :: "sourceFile \<Rightarrow> (statement \<Rightarrow> bool) \<Rightarrow> statement option" where
  "findNode sf predicate = List.find predicate (statements sf)"

text \<open>
  Modelled from the spec: \<^verbatim>\<open>extractLiteralValue\<close> of \<^verbatim>\<open>utils/extractLiteralValue.ts\<close> is
  missing from the sources; it harvests the value of a literal as a string. A literal
  \<^verbatim>\<open>null\<close> is no value: its presence is recorded apart.
\<close>

fun extractLiteralValue :: "literal \<Rightarrow> string" where
  "extractLiteralValue (StringLiteral t src) = t"
| "extractLiteralValue (NumericLiteral t src) = t"
| "extractLiteralValue (PrefixUnaryExpression MinusToken (NumericLiteral t src)) = ''-'' @ t"
| "extractLiteralValue TrueKeyword = ''true''"
| "extractLiteralValue FalseKeyword = ''false''"
| "extractLiteralValue _ = []"

text \<open>
  Modelled from the spec: \<^verbatim>\<open>generateCombinations\<close> of \<^verbatim>\<open>utils/generateCombinations.ts\<close> is
  missing from the sources; it is the cartesian product of the segment-value lists, one
  string per combination, the segments concatenated in their order.
\<close>

fun generateCombinations :: "string list list \<Rightarrow> string list" where
  "generateCombinations [] = [[]]"
| "generateCombinations (values # rest) =
     concat (map (\<lambda>v. map (\<lambda>c. v @ c) (generateCombinations rest)) values)"

fun entityName_getText :: "entityName \<Rightarrow> string" where
  "entityName_getText (Identifier t) = t"
| "entityName_getText (QualifiedName l r) = entityName_getText l @ ''.'' @ r"

fun isUnionTypeNode :: "tnode \<Rightarrow> bool" where
  "isUnionTypeNode (UnionType ts) = True"
| "isUnionTypeNode _ = False"

fun isUnionAliasOrEnumNamed :: "string \<Rightarrow> statement \<Rightarrow> bool" where
  "isUnionAliasOrEnumNamed n (TypeAliasDeclaration d) = (isUnionTypeNode (aType d) \<and> aName d = n)"
| "isUnionAliasOrEnumNamed n (EnumDeclaration d) = (eName d = n)"
| "isUnionAliasOrEnumNamed n _ = False"

fun unionMemberValue :: "tnode \<Rightarrow> string" where
  "unionMemberValue (LiteralType l) = extractLiteralValue l"
| "unionMemberValue _ = []"

fun enumMemberValue :: "string \<times> literal option \<Rightarrow> string" where
  "enumMemberValue (n, Some initializer) = extractLiteralValue initializer"
| "enumMemberValue (n, None) = []"

fun enumMemberWarnings :: "string \<Rightarrow> (string \<times> literal option) list \<Rightarrow> warning list" where
  "enumMemberWarnings e [] = []"
| "enumMemberWarnings e ((n, Some initializer) # ms) = enumMemberWarnings e ms"
| "enumMemberWarnings e ((n, None) # ms) =
     EnumMemberWithoutInitializer e n # enumMemberWarnings e ms"

text \<open>The variables of the loop over the spans of a template literal.\<close>

record templateState =
  spanValues :: "string list list"
  hasNull :: bool
  ignoreNode :: bool
  spanWarnings :: "warning list"

definition templateSpan :: "sourceFile \<Rightarrow> templateState \<Rightarrow> tnode \<times> string \<Rightarrow> templateState" where
  "templateSpan sf st span =
     (case fst span of
        TypeReference typeName typeArguments \<Rightarrow>
          (let st1 =
             (case findNode sf (isUnionAliasOrEnumNamed (entityName_getText typeName)) of
                Some (TypeAliasDeclaration d) \<Rightarrow>
                  (case aType d of
                     UnionType types \<Rightarrow>
                       st\<lparr> hasNull := hasNull st \<or> list_ex isNullLiteralType types,
                           spanValues := spanValues st @
                             [filter (\<lambda>v. v \<noteq> []) (map unionMemberValue types)] \<rparr>
                   | _ \<Rightarrow> st)
              | Some (EnumDeclaration d) \<Rightarrow>
                  st\<lparr> spanValues := spanValues st @
                        [filter (\<lambda>v. v \<noteq> []) (map enumMemberValue (eMembers d))],
                      ignoreNode := ignoreNode st \<or> enumMemberWarnings (eName d) (eMembers d) \<noteq> [],
                      spanWarnings := spanWarnings st @ enumMemberWarnings (eName d) (eMembers d) \<rparr>
              | Some _ \<Rightarrow> st
              | None \<Rightarrow>
                  st\<lparr> ignoreNode := True,
                      spanWarnings := spanWarnings st @ [ReferenceNotFound (fst span)] \<rparr>)
           in st1\<lparr> spanValues := spanValues st1 @ [[snd span]] \<rparr>)
      | _ \<Rightarrow>
          st\<lparr> ignoreNode := True,
              spanWarnings := spanWarnings st @ [TemplateNodeNotSupported (fst span)] \<rparr>)"

definition warnAll :: "warning list \<Rightarrow> unit gen" where
  "warnAll ws = (\<lambda>s. Inr ((), s\<lparr>warnings := warnings s @ ws\<rparr>))"

definition buildTemplateLiteral ::
  "params \<Rightarrow> string \<Rightarrow> (tnode \<times> string) list \<Rightarrow> zodProperty list \<Rightarrow> expr gen" where
  "buildTemplateLiteral p head templateSpans zodProperties0 =
     (let st = foldl (templateSpan (pSourceFile p))
                 \<lparr> spanValues = [[head]], hasNull = False, ignoreNode = False, spanWarnings = [] \<rparr>
                 templateSpans;
          zodProperties = zodProperties0 @ (if hasNull st then [zodPropertyNullable] else [])
      in bnd (warnAll (spanWarnings st)) (\<lambda>u.
         if \<not> ignoreNode st then
           ret (buildZodSchema (pZ p) ''union''
                  [ArrayLiteral (map (\<lambda>v. buildZodSchema (pZ p) ''literal'' [StringLit v] [])
                                     (generateCombinations (spanValues st)))]
                  zodProperties)
         else
           bnd (warn FallingBackIntoAny) (\<lambda>u.
             ret (buildZodSchema (pZ p) ''any'' [] zodProperties))))"


subsection \<open>Indexed access types\<close>

definition isQuote :: "char \<Rightarrow> bool" where
  "isQuote c = (c = CHR 0x27 \<or> c = CHR 0x22)"

text \<open>The test \<^verbatim>\<open>/^['"]([^'"]+)['"]$/\<close>: a quoted, non-empty text without a quote inside.\<close>

definition isQuotedText :: "string \<Rightarrow> bool" where
  "isQuotedText s =
     (3 \<le> length s \<and> isQuote (hd s) \<and> isQuote (last s) \<and>
      list_all (\<lambda>c. \<not> isQuote c) (butlast (tl s)))"

text \<open>\<^verbatim>\<open>s.slice(1, -1)\<close>\<close>

definition sliceInner :: "string \<Rightarrow> string" where
  "sliceInner s = butlast (tl s)"

definition isIdentifierStart :: "char \<Rightarrow> bool" where
  "isIdentifierStart c =
     (c \<in> set ''abcdefghijklmnopqrstuvwxyzABCDEFGHIJKLMNOPQRSTUVWXYZ_$'')"

definition isIdentifierPart :: "char \<Rightarrow> bool" where
  "isIdentifierPart c = (isIdentifierStart c \<or> c \<in> set ''0123456789'')"

text \<open>The test \<^verbatim>\<open>/^[a-zA-Z_$][a-zA-Z0-9_$]*$/\<close>\<close>

definition isIdentifierText :: "string \<Rightarrow> bool" where
  "isIdentifierText s =
     (case s of [] \<Rightarrow> False | c # cs \<Rightarrow> isIdentifierStart c \<and> list_all isIdentifierPart cs)"

fun isInterfaceOrTypeAlias :: "statement \<Rightarrow> bool" where
  "isInterfaceOrTypeAlias (InterfaceDeclaration d) = True"
| "isInterfaceOrTypeAlias (TypeAliasDeclaration d) = True"
| "isInterfaceOrTypeAlias _ = False"

fun statementName :: "statement \<Rightarrow> string" where
  "statementName (InterfaceDeclaration d) = iName d"
| "statementName (TypeAliasDeclaration d) = aName d"
| "statementName (EnumDeclaration d) = eName d"
| "statementName OtherStatement = []"

fun declarationMembers :: "statement \<Rightarrow> member list" where
  "declarationMembers (TypeAliasDeclaration d) =
     (case aType d of TypeLiteral ms \<Rightarrow> ms | _ \<Rightarrow> [])"
| "declarationMembers (InterfaceDeclaration d) = iMembers d"
| "declarationMembers _ = []"

fun memberNameText :: "member \<Rightarrow> string option" where
  "memberNameText (PropertySignature n t q tags) = Some (propertyName_getText n)"
| "memberNameText (IndexSignature t) = None"
| "memberNameText (OtherMember n) = map_option propertyName_getText n"

text \<open>
  The path prefix for an index \<^verbatim>\<open>-1\<close> into a member of this type: \<^verbatim>\<open>element.\<close> for a
  Maybe type, \<^verbatim>\<open>Array<>\<close> and an array, \<^verbatim>\<open>valueSchema.\<close> for \<^verbatim>\<open>Record<>\<close>.
\<close>

fun wrapperPath :: "MaybeConfig \<Rightarrow> tnode \<Rightarrow> string option" where
  "wrapperPath cfg (TypeReference typeName a) =
     (if entityName_getText typeName \<in> typeNames cfg then Some ''element.''
      else if entityName_getText typeName = ''Array'' then Some ''element.''
      else if entityName_getText typeName = ''Record'' then Some ''valueSchema.''
      else None)"
| "wrapperPath cfg (ArrayType t) = Some ''element.''"
| "wrapperPath cfg _ = None"

fun buildSchemaReference :: "params \<Rightarrow> tnode \<Rightarrow> string \<Rightarrow> expr gen" where
  "buildSchemaReference p (IndexedAccessType objectType indexType) path =
     (let sf = pSourceFile p;
          indexTypeText = nodeText sf indexType;
          isString = isQuotedText indexTypeText;
          indexTypeName = (if isString then sliceInner indexTypeText else indexTypeText)
      in
      if indexTypeName = ''-1'' then
        (case objectType of
           IndexedAccessType objectType2 indexType2 \<Rightarrow>
             (case findNode sf (\<lambda>n. isInterfaceOrTypeAlias n \<and>
                       statementName n = takeWhile (\<lambda>c. c \<noteq> CHR ''['') (nodeText sf objectType2)) of
                Some declaration \<Rightarrow>
                  (case List.find (\<lambda>m. memberNameText m = Some (sliceInner (nodeText sf indexType2)))
                          (declarationMembers declaration) of
                     Some (PropertySignature n (Some memberType) q tags) \<Rightarrow>
                       (case wrapperPath (pMaybeConfig p) memberType of
                          Some prefix \<Rightarrow> buildSchemaReference p objectType (prefix @ path)
                        | None \<Rightarrow>
                            bnd (warn IndexAccessTypeNotResolved) (\<lambda>u. ret (Ident ''any'')))
                   | _ \<Rightarrow> ret (Ident ''any''))
              | None \<Rightarrow> ret (Ident ''any''))
         | _ \<Rightarrow> ret (Ident ''any''))
      else
        (case objectType of
           IndexedAccessType objectType2 indexType2 \<Rightarrow>
             (if \<not> isString
              then buildSchemaReference p objectType (''items['' @ indexTypeName @ ''].'' @ path)
              else buildSchemaReference p objectType (''shape.'' @ indexTypeName @ ''.'' @ path))
         | TypeReference typeName a \<Rightarrow>
             (let dependencyName = pGetDependencyName p (entityName_getText typeName)
              in bnd (pushDependency dependencyName) (\<lambda>u.
                   if isIdentifierText indexTypeName
                   then ret (PropertyAccess (Ident dependencyName)
                               (butlast (''shape.'' @ indexTypeName @ ''.'' @ path)))
                   else ret (ElementAccess (PropertyAccess (Ident dependencyName) ''shape'')
                               (StringLit indexTypeName))))
         | _ \<Rightarrow> throw UnknownIndexedAccessObjectType))"
| "buildSchemaReference p t path = throw TypeError"


subsection \<open>The builders\<close>

text \<open>
  \<^verbatim>\<open>buildZodPrimitive\<close>, \<^verbatim>\<open>buildZodPrimitiveInternal\<close>, \<^verbatim>\<open>buildZodObject\<close> and
  \<^verbatim>\<open>buildZodProperties\<close>. The flags are \<^verbatim>\<open>isOptional\<close>, \<^verbatim>\<open>isNullable\<close>, \<^verbatim>\<open>isPartial\<close> and
  \<^verbatim>\<open>isRequired\<close>; a flag that a call leaves out is \<^verbatim>\<open>undefined\<close>, which
  \<^verbatim>\<open>Boolean(...)\<close> reads as false. \<^verbatim>\<open>buildZodPrimitive\<close> deletes the \<^verbatim>\<open>schema\<close> tag before it
  goes on, so the tags of the inner calls never have one. A type node that is
  \<^verbatim>\<open>undefined\<close> (a type argument past the end) makes the first test on it throw.
\<close>

function (sequential)
  buildZodPrimitive ::
    "params \<Rightarrow> tnode \<Rightarrow> bool \<Rightarrow> bool \<Rightarrow> bool \<Rightarrow> bool \<Rightarrow> jsDocTags \<Rightarrow> expr gen"
and buildZodPrimitiveInternal ::
    "params \<Rightarrow> tnode \<Rightarrow> bool \<Rightarrow> bool \<Rightarrow> bool \<Rightarrow> bool \<Rightarrow> jsDocTags \<Rightarrow> expr gen"
and buildZodObject ::
    "params \<Rightarrow> member list \<Rightarrow> schemaExtensionClause list option \<Rightarrow> expr gen"
and buildZodProperties ::
    "params \<Rightarrow> member list \<Rightarrow> (propertyName \<times> expr) list gen"
where
  "buildZodPrimitive p typeNode isOptional isNullable isPartial isRequired tags =
     (case schema tags of
        None \<Rightarrow>
          buildZodPrimitiveInternal p typeNode isOptional isNullable isPartial isRequired tags
      | Some s \<Rightarrow>
          (if s \<noteq> [] \<and> hd s \<noteq> CHR ''.'' then ret (PropertyAccess (Ident (pZ p)) s)
           else
             bnd (buildZodPrimitiveInternal p typeNode isOptional isNullable isPartial isRequired
                    (tags\<lparr>schema := None\<rparr>))
               (\<lambda>generatedSchema.
                  if s = [] then ret generatedSchema
                  else ret (PropertyAccess generatedSchema (tl s)))))"

| "buildZodPrimitiveInternal p (ParenthesizedType t) isOptional isNullable isPartial isRequired tags =
     buildZodPrimitive p t isOptional isNullable False False tags"

| "buildZodPrimitiveInternal p (TypeReference (Identifier identifierName) typeArguments)
       isOptional isNullable isPartial isRequired tags =
     (let zodProperties = pJsDocTagToZodProperties p tags isOptional isPartial isRequired isNullable
      in
      if identifierName \<in> typeNames (pMaybeConfig p) \<and> typeArguments \<noteq> None then
        (case typeArgument typeArguments 0 of
           None \<Rightarrow> throw TypeError
         | Some innerType \<Rightarrow>
             bnd (buildZodPrimitive p innerType False isNullable isPartial isRequired noTags)
               (\<lambda>arg. ret (maybeCall arg isOptional)))
      else if identifierName = ''Array'' \<and> typeArguments \<noteq> None then
        (case typeArgument typeArguments 0 of
           None \<Rightarrow> throw TypeError
         | Some t \<Rightarrow>
             buildZodPrimitive p (ArrayType t) isOptional isNullable isPartial isRequired tags)
      else if identifierName = ''Partial'' \<and> typeArguments \<noteq> None then
        (case typeArgument typeArguments 0 of
           None \<Rightarrow> throw TypeError
         | Some t \<Rightarrow> buildZodPrimitive p t isOptional isNullable True False tags)
      else if identifierName = ''Required'' \<and> typeArguments \<noteq> None then
        (case typeArgument typeArguments 0 of
           None \<Rightarrow> throw TypeError
         | Some t \<Rightarrow> buildZodPrimitive p t isOptional isNullable False True tags)
      else if identifierName = ''Readonly'' \<and> typeArguments \<noteq> None then
        (case typeArgument typeArguments 0 of
           None \<Rightarrow> throw TypeError
         | Some t \<Rightarrow> buildZodPrimitive p t isOptional isNullable False False tags)
      else if identifierName = ''ReadonlyArray'' \<and> typeArguments \<noteq> None then
        (case typeArgument typeArguments 0 of
           None \<Rightarrow> throw TypeError
         | Some t \<Rightarrow>
             bnd (buildZodPrimitive p t False isNullable False False noTags)
               (\<lambda>e. ret (buildZodSchema (pZ p) ''array'' [e] zodProperties)))
      else if identifierName = ''Record'' \<and> typeArguments \<noteq> None then
        (case typeArgument typeArguments 0 of
           None \<Rightarrow> throw TypeError
         | Some keyType \<Rightarrow>
             if keyType = KeywordType StringKeyword then
               (case typeArgument typeArguments 1 of
                  None \<Rightarrow> throw TypeError
                | Some valueType \<Rightarrow>
                    bnd (buildZodPrimitive p valueType False isNullable False False tags)
                      (\<lambda>v. ret (buildZodSchema (pZ p) ''record'' [v] zodProperties)))
             else
               bnd (buildZodPrimitive p keyType False isNullable False False tags)
                 (\<lambda>k. case typeArgument typeArguments 1 of
                         None \<Rightarrow> throw TypeError
                       | Some valueType \<Rightarrow>
                           bnd (buildZodPrimitive p valueType False isNullable False False tags)
                             (\<lambda>v. ret (buildZodSchema (pZ p) ''record'' [k, v] zodProperties))))
      else if identifierName = ''Date'' then
        ret (buildZodSchema (pZ p) ''date'' [] zodProperties)
      else if identifierName = ''Set'' \<and> typeArguments \<noteq> None then
        bnd (mapG (\<lambda>i. buildZodPrimitive p i False isNullable False False tags)
               (case typeArguments of Some args \<Rightarrow> args | None \<Rightarrow> []))
          (\<lambda>es. ret (buildZodSchema (pZ p) ''set'' es zodProperties))
      else if identifierName = ''Promise'' \<and> typeArguments \<noteq> None then
        bnd (mapG (\<lambda>i. buildZodPrimitive p i False isNullable False False tags)
               (case typeArguments of Some args \<Rightarrow> args | None \<Rightarrow> []))
          (\<lambda>es. ret (buildZodSchema (pZ p) ''promise'' es zodProperties))
      else if (identifierName = ''Omit'' \<or> identifierName = ''Pick'') \<and> typeArguments \<noteq> None then
        (case typeArgument typeArguments 0 of
           None \<Rightarrow> throw TypeError
         | Some originalType \<Rightarrow>
             bnd (buildZodPrimitive p originalType False isNullable False False noTags)
               (\<lambda>zodCall.
                  liftE (buildOmitPickObject identifierName (typeArgument typeArguments 1) zodCall)))
      else
        (let dependencyName = pGetDependencyName p identifierName
         in bnd (pushDependency dependencyName)
              (\<lambda>u. ret (withZodProperties (Ident dependencyName) zodProperties))))"

| "buildZodPrimitiveInternal p (UnionType types) isOptional isNullable isPartial isRequired tags =
     (let zodProperties0 = pJsDocTagToZodProperties p tags isOptional isPartial isRequired isNullable;
          hasNull = list_ex isNullLiteralType types;
          nodes = filter isNotNull types
      in
      if length nodes = 1 then
        buildZodPrimitive p (hd nodes) isOptional hasNull False False tags
      else
        bnd (mapG (\<lambda>i. buildZodPrimitive p i False False False False noTags) nodes)
          (\<lambda>values.
             let zodProperties = zodProperties0 @ (if hasNull then [zodPropertyNullable] else [])
             in
             case discriminator tags of
               None \<Rightarrow> ret (buildZodSchema (pZ p) ''union'' [ArrayLiteral values] zodProperties)
             | Some d \<Rightarrow>
                 if d = [] then
                   ret (buildZodSchema (pZ p) ''union'' [ArrayLiteral values] zodProperties)
                 else
                   (case checkDiscriminatedUnion d nodes of
                      None \<Rightarrow>
                        ret (buildZodSchema (pZ p) ''discriminatedUnion''
                               [StringLit d, ArrayLiteral values] zodProperties)
                    | Some w \<Rightarrow>
                        bnd (warn w) (\<lambda>u.
                          ret (buildZodSchema (pZ p) ''union'' [ArrayLiteral values]
                                 zodProperties)))))"

| "buildZodPrimitiveInternal p (TupleType elements) isOptional isNullable isPartial isRequired tags =
     (let zodProperties = pJsDocTagToZodProperties p tags isOptional isPartial isRequired isNullable
      in
      if elements = [] then throw TypeError
      else
        (case restElementOf (last elements) of
           Some restElement \<Rightarrow>
             bnd (mapG (\<lambda>node. buildZodPrimitive p (unwrapNamedTupleMember node)
                                  False isNullable False False noTags)
                    (butlast elements))
               (\<lambda>values.
                  bnd (buildZodPrimitive p restElement False isNullable False False noTags)
                    (\<lambda>r. ret (buildZodSchema (pZ p) ''tuple'' [ArrayLiteral values]
                                 (\<lparr> zpIdentifier = ''rest'', zpExpressions = Some [r] \<rparr>
                                  # zodProperties))))
         | None \<Rightarrow>
             bnd (mapG (\<lambda>node. buildZodPrimitive p (unwrapNamedTupleMember node)
                                  False isNullable False False noTags)
                    elements)
               (\<lambda>values. ret (buildZodSchema (pZ p) ''tuple'' [ArrayLiteral values]
                                 zodProperties))))"

| "buildZodPrimitiveInternal p (LiteralType l) isOptional isNullable isPartial isRequired tags =
     (let zodProperties = pJsDocTagToZodProperties p tags isOptional isPartial isRequired isNullable
      in
      case literalExpression l of
        Some e \<Rightarrow> ret (buildZodSchema (pZ p) ''literal'' [e] zodProperties)
      | None \<Rightarrow> ret (buildZodSchema (pZ p) (literal_getText l) [] zodProperties))"

| "buildZodPrimitiveInternal p (TypeReference (QualifiedName (Identifier l) r) typeArguments)
       isOptional isNullable isPartial isRequired tags =
     (let zodProperties = pJsDocTagToZodProperties p tags isOptional isPartial isRequired isNullable
      in ret (buildZodSchema (pZ p) ''literal'' [PropertyAccess (Ident l) r] zodProperties))"

| "buildZodPrimitiveInternal p (ArrayType elementType) isOptional isNullable isPartial isRequired tags =
     (let zodProperties = pJsDocTagToZodProperties p tags isOptional isPartial isRequired isNullable
      in
      bnd (buildZodPrimitive p elementType False isNullable False False (elementTags tags))
        (\<lambda>e. ret (buildZodSchema (pZ p) ''array'' [e] zodProperties)))"

| "buildZodPrimitiveInternal p (TypeLiteral members) isOptional isNullable isPartial isRequired tags =
     (let zodProperties = pJsDocTagToZodProperties p tags isOptional isPartial isRequired isNullable
      in
      bnd (buildZodObject p members None)
        (\<lambda>obj. ret (withZodProperties obj zodProperties)))"

| "buildZodPrimitiveInternal p (IntersectionType types) isOptional isNullable isPartial isRequired tags =
     (let zodProperties = pJsDocTagToZodProperties p tags isOptional isPartial isRequired isNullable
      in
      case types of
        [] \<Rightarrow> throw TypeError
      | base # rest \<Rightarrow>
          bnd (buildZodPrimitive p base False False False False noTags)
            (\<lambda>basePrimitive.
               bnd (mapG (\<lambda>node. buildZodPrimitive p node False False False False noTags) rest)
                 (\<lambda>others.
                    ret (withZodProperties
                           (foldl (\<lambda>intersectionSchema e.
                                     Call (PropertyAccess intersectionSchema ''and'') [e])
                                  basePrimitive others)
                           zodProperties))))"

| "buildZodPrimitiveInternal p (FunctionType parameters returnType)
       isOptional isNullable isPartial isRequired tags =
     (let zodProperties = pJsDocTagToZodProperties p tags isOptional isPartial isRequired isNullable
      in
      bnd (mapG (\<lambda>param. buildZodPrimitive p
                            (case fst param of Some t \<Rightarrow> t | None \<Rightarrow> KeywordType AnyKeyword)
                            (snd param) False False False tags)
             parameters)
        (\<lambda>args.
           bnd (buildZodPrimitive p returnType False False False False tags)
             (\<lambda>r. ret (buildZodSchema (pZ p) ''function'' []
                          (\<lparr> zpIdentifier = ''args'', zpExpressions = Some args \<rparr>
                           # \<lparr> zpIdentifier = ''returns'', zpExpressions = Some [r] \<rparr>
                           # zodProperties)))))"

| "buildZodPrimitiveInternal p (IndexedAccessType objectType indexType)
       isOptional isNullable isPartial isRequired tags =
     (let zodProperties = pJsDocTagToZodProperties p tags isOptional isPartial isRequired isNullable
      in
      bnd (buildSchemaReference p (IndexedAccessType objectType indexType) [])
        (\<lambda>r. ret (withZodProperties r zodProperties)))"

| "buildZodPrimitiveInternal p (KeywordType k) isOptional isNullable isPartial isRequired tags =
     (let zodProperties = pJsDocTagToZodProperties p tags isOptional isPartial isRequired isNullable
      in
      case k of
        StringKeyword \<Rightarrow> ret (buildZodSchema (pZ p) ''string'' [] zodProperties)
      | BooleanKeyword \<Rightarrow> ret (buildZodSchema (pZ p) ''boolean'' [] zodProperties)
      | UndefinedKeyword \<Rightarrow> ret (buildZodSchema (pZ p) ''undefined'' [] zodProperties)
      | NumberKeyword \<Rightarrow> ret (buildZodSchema (pZ p) ''number'' [] zodProperties)
      | AnyKeyword \<Rightarrow> ret (buildZodSchema (pZ p) ''any'' [] zodProperties)
      | BigIntKeyword \<Rightarrow> ret (buildZodSchema (pZ p) ''bigint'' [] zodProperties)
      | VoidKeyword \<Rightarrow> ret (buildZodSchema (pZ p) ''void'' [] zodProperties)
      | NeverKeyword \<Rightarrow> ret (buildZodSchema (pZ p) ''never'' [] zodProperties)
      | UnknownKeyword \<Rightarrow> ret (buildZodSchema (pZ p) ''unknown'' [] zodProperties)
      | ObjectKeyword \<Rightarrow>
          ret (buildZodSchema (pZ p) ''record'' [buildZodSchema (pZ p) ''any'' [] []]
                 zodProperties))"

| "buildZodPrimitiveInternal p (TemplateLiteralType head templateSpans)
       isOptional isNullable isPartial isRequired tags =
     (let zodProperties = pJsDocTagToZodProperties p tags isOptional isPartial isRequired isNullable
      in buildTemplateLiteral p head templateSpans zodProperties)"

| "buildZodPrimitiveInternal p typeNode isOptional isNullable isPartial isRequired tags =
     (let zodProperties = pJsDocTagToZodProperties p tags isOptional isPartial isRequired isNullable
      in
      bnd (warn (KindNotSupported (syntaxKind typeNode)))
        (\<lambda>u. ret (buildZodSchema (pZ p) ''any'' [] zodProperties)))"

| "buildZodObject p members schemaExtensionClauses =
     (let properties = filter isPropertySignature members;
          indexSignature = indexSignatureOf members
      in
      bnd (if properties \<noteq> [] then buildZodProperties p properties else ret [])
        (\<lambda>parsedProperties.
           bnd (case schemaExtensionClauses of
                  Some (c # cs) \<Rightarrow>
                    bnd (liftE (buildZodExtendedSchema (c # cs)
                                  (if properties \<noteq> []
                                   then Some [ObjectLiteral parsedProperties True] else None)
                                  []))
                      (\<lambda>e. ret (Some e))
                | _ \<Rightarrow>
                    ret (if properties \<noteq> []
                         then Some (buildZodSchema (pZ p) ''object''
                                      [ObjectLiteral parsedProperties True] [])
                         else None))
             (\<lambda>objectSchema.
                case indexSignature of
                  Some indexSignatureType \<Rightarrow>
                    if schemaExtensionClauses \<noteq> None then throw ExtendsWithIndexSignature
                    else
                      bnd (buildZodPrimitive p indexSignatureType False False False False noTags)
                        (\<lambda>v. let indexSignatureSchema = buildZodSchema (pZ p) ''record'' [v] []
                              in case objectSchema of
                                   Some obj \<Rightarrow>
                                     ret (Call (PropertyAccess indexSignatureSchema ''and'') [obj])
                                 | None \<Rightarrow> ret indexSignatureSchema)
                | None \<Rightarrow>
                    (case objectSchema of
                       Some obj \<Rightarrow> ret obj
                     | None \<Rightarrow>
                         ret (buildZodSchema (pZ p) ''object'' [ObjectLiteral [] False] [])))))"

| "buildZodProperties p members =
     bnd (mapG (\<lambda>member.
                  case member of
                    PropertySignature name (Some memberType) questionToken memberTags \<Rightarrow>
                      if isSupportedPropertyName name then
                        bnd (buildZodPrimitive p memberType questionToken False False False
                               (if pSkipParseJSDoc p then noTags else memberTags))
                          (\<lambda>e. ret [(name, e)])
                      else ret []
                  | _ \<Rightarrow> ret [])
            members)
       (\<lambda>entries. ret (concat entries))"
  by pat_completeness auto


text \<open>
  Every call is on a smaller node: a part of the node, or, for \<^verbatim>\<open>Array<T>\<close>, the array
  type of its first type argument.
\<close>

lemma size_in_list: "x \<in> set xs \<Longrightarrow> f x < size_list f xs"
  by (induction xs) auto

lemma size_mem: "x \<in> set xs \<Longrightarrow> size (x::tnode) < size_list size xs"
  by (rule size_in_list)

lemma size_typeArgument:
  "typeArgument targs i = Some t \<Longrightarrow> size t + 2 \<le> size_option (size_list size) targs"
  by (cases targs)
     (auto simp: typeArgument_def dest!: nth_mem [THEN size_in_list [where f = size]]
           split: if_splits)

lemma size_restElementOf: "restElementOf t = Some e \<Longrightarrow> size e + 2 \<le> size t"
  by (induction t rule: restElementOf.induct) auto

lemma size_unwrapNamedTupleMember: "size (unwrapNamedTupleMember t) \<le> size t"
  by (cases t) auto

lemma size_indexSignatureOf: "indexSignatureOf ms = Some t \<Longrightarrow> size t < size_list size ms"
  by (induction ms) (auto split: option.splits member.splits)

lemma size_list_filter: "size_list f (filter P xs) \<le> size_list f xs"
  by (induction xs) auto

lemma hd_in_set_length1: "length ys = 1 \<Longrightarrow> hd ys \<in> set ys"
  by (cases ys) auto

lemma size_param:
  "x \<in> set ps \<Longrightarrow>
   size (case fst x of None \<Rightarrow> KeywordType AnyKeyword | Some (t::tnode) \<Rightarrow> t)
     < size_list (size_prod (size_option size) (\<lambda>x. 0)) ps"
  by (induction ps) (auto split: option.splits)

lemma size_member_type:
  "PropertySignature n (Some t) q tags \<in> set ms \<Longrightarrow> size t + 2 < size_list size ms"
  by (induction ms) auto

termination buildZodPrimitive
  apply (relation "measure (case_sum
           (case_sum (\<lambda>(p, t, r). 3 * size t + 2) (\<lambda>(p, t, r). 3 * size t + 1))
           (case_sum (\<lambda>(p, ms, r). 3 * size_list size ms + 2)
                     (\<lambda>(p, ms). 3 * size_list size ms + 1)))")
  apply simp_all
  subgoal by (drule size_typeArgument) simp
  subgoal by (drule size_typeArgument) simp
  subgoal by (drule size_typeArgument) simp
  subgoal by (drule size_typeArgument) simp
  subgoal by (drule size_typeArgument) simp
  subgoal by (drule size_typeArgument) simp
  subgoal for p targs a b c d tags x x2 x2a
    using size_typeArgument [of targs "Suc 0" x2a] by simp
  subgoal by (drule size_typeArgument) simp
  subgoal for p targs a b c d tags x x2 x2a
    using size_typeArgument [of targs "Suc 0" x2a] by simp
  subgoal by (auto dest!: size_mem)
  subgoal by (auto dest!: size_mem)
  subgoal by (drule size_typeArgument) simp
  subgoal for p types
    using size_mem [OF hd_in_set_length1, of "filter isNotNull types"]
      size_list_filter [of size isNotNull types] by simp
  subgoal by (auto dest!: size_mem)
  subgoal for p elements a b c d tags x xa
    using size_mem [of xa elements] size_unwrapNamedTupleMember [of xa] by simp
  subgoal for p elements a b c d tags x x2 xa
    using size_mem [of xa elements] size_unwrapNamedTupleMember [of xa]
      in_set_butlastD [of xa elements] by simp
  subgoal for p elements a b c d tags x x2
    using size_mem [of "last elements" elements] size_restElementOf [of "last elements" x2]
    by simp
  subgoal by (auto dest!: size_mem)
  subgoal by (auto dest!: size_param)
  subgoal for members
    using size_list_filter [of size isPropertySignature members] by simp
  subgoal for members s x xa x2
    using size_indexSignatureOf [of members x2] by simp
  subgoal by (drule size_member_type) simp
  done

section \<open>generateZodSchemaVariableStatement: one named schema per declaration\<close>

text \<open>\<^verbatim>\<open>uniq\<close> of lodash keeps the first occurrence of each element.\<close>

fun uniq :: "'a list \<Rightarrow> 'a list" where
  "uniq [] = []"
| "uniq (x # xs) = x # uniq (filter (\<lambda>y. y \<noteq> x) xs)"

fun mapE :: "('a \<Rightarrow> error + 'b) \<Rightarrow> 'a list \<Rightarrow> error + 'b list" where
  "mapE f [] = Inr []"
| "mapE f (x # xs) =
     (case f x of
        Inl e \<Rightarrow> Inl e
      | Inr y \<Rightarrow> (case mapE f xs of Inl e \<Rightarrow> Inl e | Inr ys \<Rightarrow> Inr (y # ys)))"

definition heritageEntry :: "params \<Rightarrow> expressionWithTypeArguments \<Rightarrow> error + schemaExtensionClause" where
  "heritageEntry p ex =
     (let identifierName = hExpression ex in
      if (identifierName = ''Omit'' \<or> identifierName = ''Pick'') \<and> hTypeArguments ex \<noteq> None then
        (case typeArgument (hTypeArguments ex) 0 of
           None \<Rightarrow> Inl TypeError
         | Some originalType \<Rightarrow>
             Inr \<lparr> extendedSchemaName =
                     pGetDependencyName p (nodeText (pSourceFile p) originalType),
                   omitOrPickType = Some identifierName,
                   omitOrPickKeys = typeArgument (hTypeArguments ex) 1 \<rparr>)
      else
        Inr \<lparr> extendedSchemaName = pGetDependencyName p identifierName,
              omitOrPickType = None, omitOrPickKeys = None \<rparr>)"

text \<open>The \<^verbatim>\<open>reduce\<close> over the heritage clauses: the entries of the \<^verbatim>\<open>extends\<close> clauses.\<close>

fun heritageClausesEntries :: "params \<Rightarrow> heritageClause list \<Rightarrow> error + schemaExtensionClause list" where
  "heritageClausesEntries p [] = Inr []"
| "heritageClausesEntries p (h # hs) =
     (if hToken h \<noteq> ExtendsKeyword then heritageClausesEntries p hs
      else
        (case mapE (heritageEntry p) (hTypes h) of
           Inl e \<Rightarrow> Inl e
         | Inr heritages \<Rightarrow>
             (case heritageClausesEntries p hs of
                Inl e \<Rightarrow> Inl e
              | Inr deps \<Rightarrow> Inr (heritages @ deps))))"

text \<open>
  The result: the dependencies, the statement \<^verbatim>\<open>const varName = schema\<close> (given by the
  name and the schema; the modifiers copied from the declaration are left out), the enum
  flag, and the warnings printed on the way.
\<close>

record zodSchemaStatement =
  rDependencies :: "string list"
  rVarName :: string
  rSchema :: "expr option"
  rEnumImport :: bool
  rWarnings :: "warning list"

definition generateZodSchemaVariableStatement ::
  "params \<Rightarrow> statement \<Rightarrow> string \<Rightarrow> error + zodSchemaStatement" where
  "generateZodSchemaVariableStatement p declNode varName =
     (case declNode of
        InterfaceDeclaration d \<Rightarrow>
          (if iTypeParameters d \<noteq> None then Inl InterfaceWithGenerics
           else
             (case (case iHeritageClauses d of
                      None \<Rightarrow> Inr None
                    | Some hs \<Rightarrow>
                        (case heritageClausesEntries p hs of
                           Inl e \<Rightarrow> Inl e | Inr cs \<Rightarrow> Inr (Some cs))) of
                Inl e \<Rightarrow> Inl e
              | Inr schemaExtensionClauses \<Rightarrow>
                  (case buildZodObject p (iMembers d) schemaExtensionClauses
                          \<lparr> dependencies =
                              (case schemaExtensionClauses of
                                 None \<Rightarrow> [] | Some cs \<Rightarrow> map extendedSchemaName cs),
                            warnings = [] \<rparr> of
                     Inl e \<Rightarrow> Inl e
                   | Inr (schema0, out) \<Rightarrow>
                       Inr \<lparr> rDependencies = uniq (dependencies out),
                             rVarName = varName,
                             rSchema = Some (if \<not> pSkipParseJSDoc p \<and> strict (iJsDoc d)
                                             then Call (PropertyAccess schema0 ''strict'') []
                                             else schema0),
                             rEnumImport = False,
                             rWarnings = warnings out \<rparr>)))
      | TypeAliasDeclaration d \<Rightarrow>
          (if aTypeParameters d \<noteq> None then Inl TypeWithGenerics
           else
             (case buildZodPrimitive p (aType d) False False False False
                     (if pSkipParseJSDoc p then noTags else aJsDoc d)
                     \<lparr> dependencies = [], warnings = [] \<rparr> of
                Inl e \<Rightarrow> Inl e
              | Inr (schema0, out) \<Rightarrow>
                  Inr \<lparr> rDependencies = uniq (dependencies out),
                        rVarName = varName,
                        rSchema = Some schema0,
                        rEnumImport = False,
                        rWarnings = warnings out \<rparr>))
      | EnumDeclaration d \<Rightarrow>
          Inr \<lparr> rDependencies = [], rVarName = varName,
                rSchema = Some (buildZodSchema (pZ p) ''nativeEnum'' [Ident (eName d)] []),
                rEnumImport = True, rWarnings = [] \<rparr>
      | OtherStatement \<Rightarrow>
          Inr \<lparr> rDependencies = [], rVarName = varName, rSchema = None,
                rEnumImport = False, rWarnings = [] \<rparr>)"

section \<open>What the specification says, and the inputs of the examples\<close>

subsection \<open>Reserved boolean-generic interfaces, in the words of the specification\<close>








subsection \<open>The modifiers of the contextual flags\<close>

text \<open>
  Modelled from the spec: \<^verbatim>\<open>jsDocTagToZodProperties\<close> of \<^verbatim>\<open>core/jsDocTags.ts\<close> is missing from
  the sources. The builders take it as a parameter; this instance, used at the concrete
  inputs below, gives the modifiers of the four contextual flags (optional, nullable,
  partial, required) and none for the annotation tags.
\<close>

definition flagsToZodProperties ::
  "jsDocTags \<Rightarrow> bool \<Rightarrow> bool \<Rightarrow> bool \<Rightarrow> bool \<Rightarrow> zodProperty list" where
  "flagsToZodProperties tags isOptional isPartial isRequired isNullable =
     (if isOptional then [zodPropertyIsOptional] else []) @
     (if isNullable then [zodPropertyNullable] else []) @
     (if isPartial then [\<lparr> zpIdentifier = ''partial'', zpExpressions = None \<rparr>] else []) @
     (if isRequired then [\<lparr> zpIdentifier = ''required'', zpExpressions = None \<rparr>] else [])"

text \<open>A dependency name deriver for the examples: the name with \<^verbatim>\<open>Schema\<close> appended.\<close>

definition schemaNameOf :: "string \<Rightarrow> string" where
  "schemaNameOf n = n @ ''Schema''"

subsection \<open>Example inputs\<close>

text \<open>\<^verbatim>\<open>interface Flag<T extends boolean = true> { x: string }\<close>, registered as reserved.\<close>

definition flagInterface :: interfaceDeclaration where
  "flagInterface = \<lparr> iName = ''Flag'',
     iTypeParameters = Some [\<lparr> tpName = ''T'',
        tpConstraint = Some (KeywordType BooleanKeyword),
        tpDefault = Some (LiteralType TrueKeyword) \<rparr>],
     iHeritageClauses = None,
     iMembers = [PropertySignature (NameIdentifier ''x'') (Some (KeywordType StringKeyword))
                   False noTags],
     iJsDoc = noTags \<rparr>"

definition flagFile :: sourceFile where
  "flagFile = \<lparr> statements = [InterfaceDeclaration flagInterface], nodeText = (\<lambda>t. []) \<rparr>"

definition flagState :: State where
  "flagState = \<lparr> genericMap = Map.empty,
     maybeConfig = \<lparr> optional = True, nullable = True, typeNames = {''Flag''} \<rparr>,
     rawFileAst = Some flagFile \<rparr>"

definition flagParams :: params where
  "flagParams = \<lparr> pZ = ''z'', pSourceFile = flagFile, pGetDependencyName = schemaNameOf,
     pSkipParseJSDoc = False,
     pMaybeConfig = \<lparr> optional = True, nullable = True, typeNames = {''Flag''} \<rparr>,
     pJsDocTagToZodProperties = flagsToZodProperties \<rparr>"

text \<open>\<^verbatim>\<open>type Box<T> = { value: T }\<close>\<close>

definition boxAlias :: typeAliasDeclaration where
  "boxAlias = \<lparr> aName = ''Box'',
     aTypeParameters = Some [\<lparr> tpName = ''T'', tpConstraint = None, tpDefault = None \<rparr>],
     aType = TypeLiteral [PropertySignature (NameIdentifier ''value'')
               (Some (TypeReference (Identifier ''T'') None)) False noTags],
     aJsDoc = noTags \<rparr>"




text \<open>Parameters with one maybe type name, \<^verbatim>\<open>Maybe\<close>, and an empty source file.\<close>

definition plainParams :: params where
  "plainParams = \<lparr> pZ = ''z'', pSourceFile = \<lparr> statements = [], nodeText = (\<lambda>t. []) \<rparr>,
     pGetDependencyName = schemaNameOf, pSkipParseJSDoc = False,
     pMaybeConfig = \<lparr> optional = True, nullable = True, typeNames = {''Maybe''} \<rparr>,
     pJsDocTagToZodProperties = flagsToZodProperties \<rparr>"

definition out0 :: genState where
  "out0 = \<lparr> dependencies = [], warnings = [] \<rparr>"

text \<open>The same parameters with the name \<^verbatim>\<open>Array\<close> registered as a maybe type name.\<close>

definition arrayMaybeParams :: params where
  "arrayMaybeParams = plainParams \<lparr> pMaybeConfig :=
     \<lparr> optional = True, nullable = True, typeNames = {''Array''} \<rparr> \<rparr>"

text \<open>The node kinds with no rule of their own.\<close>

fun unsupportedKind :: "tnode \<Rightarrow> bool" where
  "unsupportedKind (OtherType k) = True"
| "unsupportedKind (RestType t) = True"
| "unsupportedKind (NamedTupleMember t) = True"
| "unsupportedKind _ = False"

text \<open>\<^verbatim>\<open>type A = { a: X extends Y ? 1 : 2; b?: string }\<close>\<close>

definition conditionalAlias :: typeAliasDeclaration where
  "conditionalAlias = \<lparr> aName = ''A'', aTypeParameters = None,
     aType = TypeLiteral
       [PropertySignature (NameIdentifier ''a'') (Some (OtherType ''ConditionalType'')) False noTags,
        PropertySignature (NameIdentifier ''b'') (Some (KeywordType StringKeyword)) True noTags],
     aJsDoc = noTags \<rparr>"


text \<open>\<^verbatim>\<open>Omit<Person, "age">\<close> and \<^verbatim>\<open>Omit<Person, 1>\<close>\<close>

definition personReference :: tnode where
  "personReference = TypeReference (Identifier ''Person'') None"

definition quoted :: "string \<Rightarrow> string" where
  "quoted t = CHR 0x22 # t @ [CHR 0x22]"

definition omitPersonAge :: tnode where
  "omitPersonAge = TypeReference (Identifier ''Omit'')
     (Some [personReference, LiteralType (StringLiteral ''age'' (quoted ''age''))])"

definition omitPersonOne :: tnode where
  "omitPersonOne = TypeReference (Identifier ''Omit'')
     (Some [personReference, LiteralType (NumericLiteral ''1'' ''1'')])"

text \<open>
  The projection of the specification: the base schema with a chained \<^verbatim>\<open>omit\<close> or \<^verbatim>\<open>pick\<close>
  call whose argument is an object literal mapping each key, as written in the source, to
  \<^verbatim>\<open>true\<close>.
\<close>

definition projectionCall :: "string \<Rightarrow> expr \<Rightarrow> literal list \<Rightarrow> expr" where
  "projectionCall omitOrPick base keys =
     Call (PropertyAccess base (if omitOrPick = ''Omit'' then ''omit'' else ''pick''))
       [ObjectLiteral (map (\<lambda>l. (NameIdentifier (literal_getText l), TrueLit)) keys) False]"









subsection \<open>Unions and null, in the words of the specification\<close>

text \<open>
  ``\<^verbatim>\<open>compile(T | null)\<close> is structurally identical to \<^verbatim>\<open>compile(T)\<close> with an appended nullable
  modifier.'' The result of a compilation with \<^verbatim>\<open>.nullable()\<close> appended to its expression;
  an error stays the error.
\<close>

definition appendNullable :: "error + (expr \<times> genState) \<Rightarrow> error + (expr \<times> genState)" where
  "appendNullable r =
     (case r of
        Inl e \<Rightarrow> Inl e
      | Inr (e, s) \<Rightarrow> Inr (Call (PropertyAccess e ''nullable'') [], s))"


subsection \<open>Template literals, in the words of the specification\<close>


















section \<open>Properties\<close>

subsection \<open>Declarations with generic parameters\<close>

text \<open>
  C1 (as stated, refuted): a generic interface whose name is registered as reserved is
  rejected by \<^verbatim>\<open>generateZodSchemaVariableStatement\<close> like every other generic declaration;
  the registration is not looked at there.
\<close>

theorem reserved_interface_rejected_standalone:
  "iName flagInterface \<in> typeNames (pMaybeConfig flagParams) \<and>
   generateZodSchemaVariableStatement flagParams (InterfaceDeclaration flagInterface) ''flagSchema''
     = Inl InterfaceWithGenerics"
  by (simp add: generateZodSchemaVariableStatement_def flagInterface_def flagParams_def)

text \<open>
  C1 (amended): compiling an interface or a type alias with generic parameters into a
  standalone named schema is rejected with a hard error, reserved or not; an interface
  registered as reserved is special-cased in \<^verbatim>\<open>generateZodSchema\<close> only, which compiles it
  by the rule for reserved interfaces, from the generic map of the instantiation.
\<close>

theorem generic_declarations_standalone:
  "(iTypeParameters d \<noteq> None \<longrightarrow>
      generateZodSchemaVariableStatement p (InterfaceDeclaration d) varName
        = Inl InterfaceWithGenerics) \<and>
   (aTypeParameters a \<noteq> None \<longrightarrow>
      generateZodSchemaVariableStatement p (TypeAliasDeclaration a) varName
        = Inl TypeWithGenerics) \<and>
   (iName d \<in> typeNames (maybeConfig st) \<longrightarrow>
      generateZodSchema (Suc fuel) (DeclarationNode (InterfaceDeclaration d)) st
        = generateMaybeInterfaceSchema fuel d st)"
  by (simp add: generateZodSchemaVariableStatement_def genericExpansion_def
        genericSubstitution_def)

theorem generic_declarations_standalone_witness:
  "iTypeParameters flagInterface \<noteq> None \<and>
   generateZodSchemaVariableStatement flagParams (InterfaceDeclaration flagInterface) ''flagSchema''
     = Inl InterfaceWithGenerics \<and>
   aTypeParameters boxAlias \<noteq> None \<and>
   generateZodSchemaVariableStatement flagParams (TypeAliasDeclaration boxAlias) ''boxSchema''
     = Inl TypeWithGenerics \<and>
   iName flagInterface \<in> typeNames (maybeConfig flagState) \<and>
   generateZodSchema 3 (DeclarationNode (InterfaceDeclaration flagInterface)) flagState
     = Some (Inr (ZodObject [(''x'', ZodString)]))"
  using generic_declarations_standalone
          [of flagInterface flagParams "''flagSchema''" boxAlias flagState 2]
        generic_declarations_standalone
          [of flagInterface flagParams "''boxSchema''" boxAlias flagState 2]
  by (simp add: flagInterface_def boxAlias_def flagState_def eval_nat_numeral shape_set_def
        isArrayIndex_def isDigit_def wrapMember_def genericExpansion_def
        genericSubstitution_def)

subsection \<open>Substitution of generic parameters\<close>




subsection \<open>Reserved boolean-generic interfaces\<close>























subsection \<open>Unsupported node kinds\<close>

text \<open>
  C9: a type node whose kind has no rule compiles to \<^verbatim>\<open>z.any()\<close> with the modifiers of
  the context, and a warning is printed; no error is raised, neither by
  \<^verbatim>\<open>buildZodPrimitiveInternal\<close> nor by \<^verbatim>\<open>buildZodPrimitive\<close>.
\<close>

theorem unsupported_kind_falls_back:
  assumes "unsupportedKind typeNode"
  shows "buildZodPrimitiveInternal p typeNode isOptional isNullable isPartial isRequired tags s =
           Inr (buildZodSchema (pZ p) ''any'' []
                  (pJsDocTagToZodProperties p tags isOptional isPartial isRequired isNullable),
                s\<lparr>warnings := warnings s @ [KindNotSupported (syntaxKind typeNode)]\<rparr>) \<and>
         (\<forall>e. buildZodPrimitive p typeNode isOptional isNullable isPartial isRequired tags s \<noteq> Inl e)"
  using assms
  by (cases typeNode) (auto simp: bnd_def warn_def ret_def split: option.splits)

text \<open>A declaration with a conditional type in one member still gets its schema.\<close>

theorem unsupported_kind_witness:
  "unsupportedKind (OtherType ''ConditionalType'') \<and>
   buildZodPrimitiveInternal plainParams (OtherType ''ConditionalType'') True False False False noTags out0 =
     Inr (Call (PropertyAccess (Call (PropertyAccess (Ident ''z'') ''any'') []) ''optional'') [],
          \<lparr> dependencies = [], warnings = [KindNotSupported ''ConditionalType''] \<rparr>) \<and>
   generateZodSchemaVariableStatement plainParams (TypeAliasDeclaration conditionalAlias) ''aSchema'' =
     Inr \<lparr> rDependencies = [], rVarName = ''aSchema'',
           rSchema = Some (Call (PropertyAccess (Ident ''z'') ''object'')
             [ObjectLiteral
                [(NameIdentifier ''a'', Call (PropertyAccess (Ident ''z'') ''any'') []),
                 (NameIdentifier ''b'',
                  Call (PropertyAccess (Call (PropertyAccess (Ident ''z'') ''string'') []) ''optional'') [])]
                True]),
           rEnumImport = False,
           rWarnings = [KindNotSupported ''ConditionalType''] \<rparr>"
  using unsupported_kind_falls_back
          [of "OtherType ''ConditionalType''" plainParams True False False False noTags out0]
  by (simp add: plainParams_def out0_def noTags_def flagsToZodProperties_def buildZodSchema_def
        withZodProperties_def zodPropertyIsOptional_def generateZodSchemaVariableStatement_def
        conditionalAlias_def bnd_def ret_def warn_def)

subsection \<open>References to a maybe type\<close>

text \<open>
  C10: a reference with type arguments whose name is a maybe type name compiles to the call
  of the identifier \<^verbatim>\<open>maybe\<close> on its first type argument, compiled as not optional and with
  no tags, with \<^verbatim>\<open>.optional()\<close> appended exactly when the member is optional. Nothing else
  of the maybe configuration is read here.
\<close>

theorem maybe_reference:
  assumes "identifierName \<in> typeNames (pMaybeConfig p)"
  shows "buildZodPrimitiveInternal p
           (TypeReference (Identifier identifierName) (Some (innerType # moreArguments)))
           isOptional isNullable isPartial isRequired tags =
         bnd (buildZodPrimitive p innerType False isNullable isPartial isRequired noTags)
           (\<lambda>arg. ret (if isOptional
                         then Call (PropertyAccess (Call (Ident ''maybe'') [arg]) ''optional'') []
                         else Call (Ident ''maybe'') [arg]))"
  using assms
  by (simp add: typeArgument_def maybeCall_def withZodProperties_def zodPropertyIsOptional_def
       del: buildZodPrimitive.simps cong: if_cong)

theorem maybe_reference_witness:
  "''Maybe'' \<in> typeNames (pMaybeConfig plainParams) \<and>
   buildZodPrimitiveInternal plainParams
       (TypeReference (Identifier ''Maybe'') (Some [KeywordType StringKeyword]))
       True False False False noTags out0 =
     Inr (Call (PropertyAccess
                 (Call (Ident ''maybe'') [Call (PropertyAccess (Ident ''z'') ''string'') []])
                 ''optional'') [], out0)"
  using maybe_reference
          [of "''Maybe''" plainParams "KeywordType StringKeyword" "[]" True False False False noTags]
  by (simp add: plainParams_def out0_def noTags_def flagsToZodProperties_def buildZodSchema_def
        withZodProperties_def bnd_def ret_def del: buildZodPrimitiveInternal.simps(2))

subsection \<open>Array sugar and the Array reference\<close>

text \<open>
  C8 (as stated, refuted): when \<^verbatim>\<open>Array\<close> is registered as a maybe type name,
  \<^verbatim>\<open>Array<string>\<close> compiles to \<^verbatim>\<open>maybe(z.string())\<close> and \<^verbatim>\<open>string[]\<close> to
  \<^verbatim>\<open>z.array(z.string())\<close>.
\<close>

theorem array_reference_as_maybe:
  "buildZodPrimitive arrayMaybeParams
       (TypeReference (Identifier ''Array'') (Some [KeywordType StringKeyword]))
       False False False False noTags out0 =
     Inr (Call (Ident ''maybe'') [Call (PropertyAccess (Ident ''z'') ''string'') []], out0) \<and>
   buildZodPrimitive arrayMaybeParams (ArrayType (KeywordType StringKeyword))
       False False False False noTags out0 =
     Inr (Call (PropertyAccess (Ident ''z'') ''array'')
            [Call (PropertyAccess (Ident ''z'') ''string'') []], out0)"
  by (simp add: arrayMaybeParams_def plainParams_def out0_def noTags_def flagsToZodProperties_def
        buildZodSchema_def withZodProperties_def bnd_def ret_def typeArgument_def maybeCall_def
        elementTags_def)

text \<open>
  C8 (amended): when \<^verbatim>\<open>Array\<close> is not registered as a maybe type name, the reference
  \<^verbatim>\<open>Array<T>\<close> and the array \<^verbatim>\<open>T[]\<close> compile to the same expression, with the same
  dependencies and warnings, for every type, flags and tags.
\<close>

theorem array_sugar_equals_reference:
  assumes "''Array'' \<notin> typeNames (pMaybeConfig p)"
  shows "buildZodPrimitive p (TypeReference (Identifier ''Array'') (Some [t]))
           isOptional isNullable isPartial isRequired tags =
         buildZodPrimitive p (ArrayType t) isOptional isNullable isPartial isRequired tags"
proof -
  have internal: "buildZodPrimitiveInternal p (TypeReference (Identifier ''Array'') (Some [t]))
           isOptional isNullable isPartial isRequired tags' =
         buildZodPrimitiveInternal p (ArrayType t) isOptional isNullable isPartial isRequired tags'"
    if "schema tags' = None" for tags'
    using assms that by (simp add: typeArgument_def)
  show ?thesis
  proof (cases "schema tags")
    case None
    then show ?thesis using internal [of tags] by simp
  next
    case (Some s)
    then show ?thesis using internal [of "tags\<lparr>schema := None\<rparr>"]
      by (simp del: buildZodPrimitiveInternal.simps)
  qed
qed

theorem array_sugar_equals_reference_witness:
  "''Array'' \<notin> typeNames (pMaybeConfig plainParams) \<and>
   buildZodPrimitive plainParams (TypeReference (Identifier ''Array'') (Some [KeywordType StringKeyword]))
       True False False False noTags out0 =
   buildZodPrimitive plainParams (ArrayType (KeywordType StringKeyword))
       True False False False noTags out0 \<and>
   buildZodPrimitive plainParams (ArrayType (KeywordType StringKeyword))
       True False False False noTags out0 =
     Inr (Call (PropertyAccess
            (Call (PropertyAccess (Ident ''z'') ''array'')
               [Call (PropertyAccess (Ident ''z'') ''string'') []]) ''optional'') [], out0)"
  using array_sugar_equals_reference
          [of plainParams "KeywordType StringKeyword" True False False False noTags]
  by (simp add: plainParams_def out0_def noTags_def flagsToZodProperties_def
        buildZodSchema_def withZodProperties_def bnd_def ret_def elementTags_def
        zodPropertyIsOptional_def
        del: buildZodPrimitiveInternal.simps(2))

subsection \<open>Index signatures\<close>



subsection \<open>Omit and Pick\<close>

text \<open>
  C7 (as stated, refuted): the key \<^verbatim>\<open>1\<close> of \<^verbatim>\<open>Omit<Person, 1>\<close> is neither a string
  literal type nor a union, and the reference compiles to a projection, not to an error.
\<close>

theorem omit_numeric_key_accepted:
  "buildZodPrimitive plainParams omitPersonOne False False False False noTags out0 =
     Inr (Call (PropertyAccess (Ident ''PersonSchema'') ''omit'')
            [ObjectLiteral [(NameIdentifier ''1'', TrueLit)] False],
          \<lparr> dependencies = [''PersonSchema''], warnings = [] \<rparr>)"
  by (simp add: omitPersonOne_def personReference_def plainParams_def out0_def noTags_def
        flagsToZodProperties_def buildZodSchema_def withZodProperties_def bnd_def ret_def
        typeArgument_def buildOmitPickObject_def liftE_def lower_def pushDependency_def
        schemaNameOf_def Let_def)

lemma omitPickKey_literals: "map omitPickKey (map LiteralType ls) =
    map (\<lambda>l. (NameIdentifier (literal_getText l), TrueLit)) ls"
  by (induction ls) simp_all

lemma find_nonliteral_literals: "List.find (\<lambda>t. \<not> isLiteralTypeNode t) (map LiteralType ls) = None"
  by (induction ls) simp_all

lemma find_nonliteral_Some:
  "\<exists>t\<in>set ts. \<not> isLiteralTypeNode t \<Longrightarrow>
   \<exists>t. List.find (\<lambda>t. \<not> isLiteralTypeNode t) ts = Some t \<and> t \<in> set ts \<and> \<not> isLiteralTypeNode t"
  by (induction ts) auto

text \<open>
  C7 (amended): for \<^verbatim>\<open>Omit<T, K>\<close> and \<^verbatim>\<open>Pick<T, K>\<close>, when the name is not registered as
  a maybe type name and the base type has compiled: if \<open>K\<close> is a literal type (of any
  literal) or a union of literal types, the result is the base schema with the chained
  \<^verbatim>\<open>omit\<close> or \<^verbatim>\<open>pick\<close> call on the object literal that maps each key, as written, to
  \<^verbatim>\<open>true\<close>; if \<open>K\<close> is neither a literal type nor a union, or a union with a part that is
  not a literal type, a hard error names the kind of the node that is not supported.
\<close>

theorem omit_pick_projection:
  assumes name: "identifierName = ''Omit'' \<or> identifierName = ''Pick''"
      and notMaybe: "identifierName \<notin> typeNames (pMaybeConfig p)"
      and base: "buildZodPrimitive p originalType False isNullable False False noTags s
                   = Inr (zodCall, s')"
  shows "(\<forall>l. keys = LiteralType l \<longrightarrow>
            buildZodPrimitiveInternal p
                (TypeReference (Identifier identifierName) (Some [originalType, keys]))
                isOptional isNullable isPartial isRequired tags s
              = Inr (projectionCall identifierName zodCall [l], s')) \<and>
         (\<forall>ls. keys = UnionType (map LiteralType ls) \<longrightarrow>
            buildZodPrimitiveInternal p
                (TypeReference (Identifier identifierName) (Some [originalType, keys]))
                isOptional isNullable isPartial isRequired tags s
              = Inr (projectionCall identifierName zodCall ls, s')) \<and>
         (\<not> isLiteralTypeNode keys \<and> \<not> isUnionTypeNode keys \<longrightarrow>
            buildZodPrimitiveInternal p
                (TypeReference (Identifier identifierName) (Some [originalType, keys]))
                isOptional isNullable isPartial isRequired tags s
              = Inl (OmitPickUnknownSyntax identifierName (syntaxKind keys) False)) \<and>
         (\<forall>ts. keys = UnionType ts \<and> (\<exists>t\<in>set ts. \<not> isLiteralTypeNode t) \<longrightarrow>
            (\<exists>t\<in>set ts. \<not> isLiteralTypeNode t \<and>
               buildZodPrimitiveInternal p
                   (TypeReference (Identifier identifierName) (Some [originalType, keys]))
                   isOptional isNullable isPartial isRequired tags s
                 = Inl (OmitPickUnknownSyntax identifierName (syntaxKind t) True)))"
proof -
  have step: "buildZodPrimitiveInternal p
                (TypeReference (Identifier identifierName) (Some [originalType, keys]))
                isOptional isNullable isPartial isRequired tags s
              = (case buildOmitPickObject identifierName (Some keys) zodCall of
                   Inl e \<Rightarrow> Inl e | Inr x \<Rightarrow> Inr (x, s'))"
    using name notMaybe base
    by (auto simp: typeArgument_def bnd_def liftE_def ret_def throw_def
             simp del: buildZodPrimitive.simps split: sum.splits)
  have lit: "buildOmitPickObject identifierName (Some (LiteralType l)) zodCall
               = Inr (projectionCall identifierName zodCall [l])" for l
    using name by (auto simp: buildOmitPickObject_def projectionCall_def lower_def)
  have uni: "buildOmitPickObject identifierName (Some (UnionType (map LiteralType ls))) zodCall
               = Inr (projectionCall identifierName zodCall ls)" for ls
    using name
    by (auto simp: buildOmitPickObject_def projectionCall_def lower_def
          omitPickKey_literals find_nonliteral_literals)
  have other: "buildOmitPickObject identifierName (Some keys) zodCall
               = Inl (OmitPickUnknownSyntax identifierName (syntaxKind keys) False)"
    if "\<not> isLiteralTypeNode keys" "\<not> isUnionTypeNode keys"
    using that by (cases keys) (simp_all add: buildOmitPickObject_def)
  have part: "\<exists>t\<in>set ts. \<not> isLiteralTypeNode t \<and>
                buildOmitPickObject identifierName (Some (UnionType ts)) zodCall
                  = Inl (OmitPickUnknownSyntax identifierName (syntaxKind t) True)"
    if "\<exists>t\<in>set ts. \<not> isLiteralTypeNode t" for ts
    using find_nonliteral_Some [OF that] by (auto simp: buildOmitPickObject_def)
  show ?thesis
    unfolding step
  proof (intro conjI allI impI)
    fix l
    assume "keys = LiteralType l"
    then show "(case buildOmitPickObject identifierName (Some keys) zodCall of
                  Inl e \<Rightarrow> Inl e | Inr x \<Rightarrow> Inr (x, s'))
               = Inr (projectionCall identifierName zodCall [l], s')"
      using lit [of l] by simp
  next
    fix ls
    assume "keys = UnionType (map LiteralType ls)"
    then show "(case buildOmitPickObject identifierName (Some keys) zodCall of
                  Inl e \<Rightarrow> Inl e | Inr x \<Rightarrow> Inr (x, s'))
               = Inr (projectionCall identifierName zodCall ls, s')"
      using uni [of ls] by simp
  next
    assume "\<not> isLiteralTypeNode keys \<and> \<not> isUnionTypeNode keys"
    then show "(case buildOmitPickObject identifierName (Some keys) zodCall of
                  Inl e \<Rightarrow> Inl e | Inr x \<Rightarrow> Inr (x, s'))
               = Inl (OmitPickUnknownSyntax identifierName (syntaxKind keys) False)"
      using other by simp
  next
    fix ts
    assume h: "keys = UnionType ts \<and> (\<exists>t\<in>set ts. \<not> isLiteralTypeNode t)"
    then obtain t where t: "t \<in> set ts" "\<not> isLiteralTypeNode t"
        "buildOmitPickObject identifierName (Some (UnionType ts)) zodCall
           = Inl (OmitPickUnknownSyntax identifierName (syntaxKind t) True)"
      using part [of ts] by blast
    show "\<exists>t\<in>set ts. \<not> isLiteralTypeNode t \<and>
            (case buildOmitPickObject identifierName (Some keys) zodCall of
               Inl e \<Rightarrow> Inl e | Inr x \<Rightarrow> Inr (x, s'))
            = Inl (OmitPickUnknownSyntax identifierName (syntaxKind t) True)"
    proof (rule bexI [of _ t])
      show "\<not> isLiteralTypeNode t \<and>
            (case buildOmitPickObject identifierName (Some keys) zodCall of
               Inl e \<Rightarrow> Inl e | Inr x \<Rightarrow> Inr (x, s'))
            = Inl (OmitPickUnknownSyntax identifierName (syntaxKind t) True)"
        using h t by simp
    qed (rule t(1))
  qed
qed

theorem omit_pick_projection_witness:
  "buildZodPrimitiveInternal plainParams omitPersonAge False False False False noTags out0 =
     Inr (Call (PropertyAccess (Ident ''PersonSchema'') ''omit'')
            [ObjectLiteral [(NameIdentifier (quoted ''age''), TrueLit)] False],
          \<lparr> dependencies = [''PersonSchema''], warnings = [] \<rparr>) \<and>
   buildZodPrimitiveInternal plainParams
       (TypeReference (Identifier ''Pick'') (Some [personReference, KeywordType StringKeyword]))
       False False False False noTags out0 =
     Inl (OmitPickUnknownSyntax ''Pick'' ''StringKeyword'' False)"
proof -
  have base: "buildZodPrimitive plainParams personReference False False False False noTags out0
                = Inr (Ident ''PersonSchema'',
                       \<lparr> dependencies = [''PersonSchema''], warnings = [] \<rparr>)"
    by (simp add: personReference_def plainParams_def out0_def noTags_def
          flagsToZodProperties_def withZodProperties_def bnd_def ret_def
          pushDependency_def schemaNameOf_def Let_def)
  have notMaybe: "''Omit'' \<notin> typeNames (pMaybeConfig plainParams)"
                 "''Pick'' \<notin> typeNames (pMaybeConfig plainParams)"
    by (simp_all add: plainParams_def)
  show ?thesis
    using omit_pick_projection
            [OF disjI1 [OF refl] notMaybe(1) base,
             of "LiteralType (StringLiteral ''age'' (quoted ''age''))" False False False noTags]
          omit_pick_projection
            [OF disjI2 [OF refl] notMaybe(2) base,
             of "KeywordType StringKeyword" False False False noTags]
    by (simp add: omitPersonAge_def projectionCall_def
          del: buildZodPrimitiveInternal.simps)
qed

subsection \<open>Unions and null\<close>





lemma appendNullable_throw: "appendNullable (throw e s) = throw e s"
  by (simp add: appendNullable_def throw_def)

lemma appendNullable_liftE: "appendNullable (liftE (Inl e) s) = liftE (Inl e) s"
  by (simp add: liftE_def appendNullable_throw)






subsection \<open>Template literals\<close>
















end
